theory Spec2Isabelle
  imports Complex_Main "HOL-Library.Sublist"
begin

section \<open>Values, the configuration mapping and the surroundings of the process\<close>

text \<open>
  The values that \<^verbatim>\<open>json.dump\<close> accepts: those that \<^verbatim>\<open>json.load\<close> produces, and the
  tuple, which \<^verbatim>\<open>json.dump\<close> writes as it writes a list. Python's \<^verbatim>\<open>int\<close> and
  \<^verbatim>\<open>float\<close> are both \<open>JNum\<close>: the program stores numbers and never computes with
  them (the float that is not a number, which differs from itself, is not among them).
  A nested object is an association list; the configuration mapping itself
  (\<^verbatim>\<open>self.config\<close>, a \<^verbatim>\<open>dict\<close>) is a map, and its keys are strings.
\<close>

datatype jvalue =
    JNull
  | JBool bool
  | JNum real
  | JStr string
  | JList "jvalue list"
  | JTuple "jvalue list"
  | JDict "(string \<times> jvalue) list"

type_synonym dict = "string \<rightharpoonup> jvalue"

text \<open>
  What \<^verbatim>\<open>CONFIG_FILE\<close> is when \<^verbatim>\<open>load_config\<close> looks at it:
  \<^item> \<open>Missing\<close>: \<^verbatim>\<open>os.path.exists\<close> is false;
  \<^item> \<open>Unreadable\<close>: the file exists and a statement of the \<^verbatim>\<open>try\<close> block raises
    (\<^verbatim>\<open>open\<close> fails, \<^verbatim>\<open>json.load\<close> rejects the text, or the loaded value is one on which
    \<^verbatim>\<open>in\<close>, \<^verbatim>\<open>del\<close> or \<^verbatim>\<open>update\<close> raises, such as a number);
  \<^item> \<open>JsonObject m\<close>: \<^verbatim>\<open>json.load\<close> returns the dict \<open>m\<close>;
  \<^item> \<open>JsonPairs ps\<close>: \<^verbatim>\<open>json.load\<close> returns a list whose elements are two-element
    lists \<^verbatim>\<open>[key, value]\<close> with a string key. Such a list holds no string, so
    \<^verbatim>\<open>key in saved_config\<close> is false for every string, and \<^verbatim>\<open>dict.update\<close> accepts it
    as a sequence of key/value pairs.
  A top-level list with a pair whose key is not a string is not modelled: it would put a
  key that is not a string into \<^verbatim>\<open>self.config\<close>.
  The contents of a file that \<^verbatim>\<open>save_config\<close> wrote are what \<^verbatim>\<open>json.load\<close> returns
  for the text that \<^verbatim>\<open>json.dump\<close> wrote (\<open>json_dump\<close> below).
\<close>

datatype disk_file =
    Missing
  | Unreadable
  | JsonObject dict
  | JsonPairs "(string \<times> jvalue) list"

text \<open>
  What happens when \<^verbatim>\<open>save_config\<close> writes: the write succeeds; \<^verbatim>\<open>open\<close> raises and the
  file stays as it was; or \<^verbatim>\<open>open\<close> has truncated the file and \<^verbatim>\<open>json.dump\<close> raises
  before the text is complete, which leaves text that does not parse.
\<close>

datatype disk_behaviour = Writable | OpenFails | DumpFails

text \<open>The three \<^verbatim>\<open>print\<close> calls of the module, each in an exception handler.\<close>

datatype message =
    ReadFailed
  | EnvFormatError string string
  | SaveFailed

text \<open>The exceptions that leave \<^verbatim>\<open>is_fund_alerted\<close> and \<^verbatim>\<open>mark_fund_alerted\<close>.\<close>

datatype error = TypeError | AttributeError

text \<open>
  The attributes of the \<^verbatim>\<open>ConfigManager\<close> instance (\<open>config\<close>, \<open>dingtalk_webhook\<close>,
  \<open>dingtalk_secret\<close>) together with what the methods read and write outside it: the
  environment variables, the date \<^verbatim>\<open>datetime.now().strftime("%Y-%m-%d")\<close> returns, the
  configuration file, how the disk answers a write, and what was printed.
  \<^verbatim>\<open>self.default_config\<close> is the same literal at every load and is the constant
  \<open>default_config\<close> below. Its list \<^verbatim>\<open>[]\<close> is shared with \<^verbatim>\<open>self.config\<close> by the
  shallow \<^verbatim>\<open>copy\<close>, but \<^verbatim>\<open>default_config\<close> is only read by \<^verbatim>\<open>load_config\<close>, which
  builds it anew first, so the sharing is never observed.
\<close>

record state =
  config :: dict
  dingtalk_webhook :: jvalue
  dingtalk_secret :: jvalue
  environ :: "string \<rightharpoonup> string"
  today :: string
  config_file :: disk_file
  disk :: disk_behaviour
  printed :: "message list"

definition default_config :: dict where
  "default_config =
     [''premium_threshold'' \<mapsto> JNum 30,
      ''discount_threshold'' \<mapsto> JNum 40,
      ''last_alert_date'' \<mapsto> JStr [],
      ''alerted_funds'' \<mapsto> JList [],
      ''mode'' \<mapsto> JStr ''ui'']"

definition sensitive_keys :: "string list" where
  "sensitive_keys = [''dingtalk_webhook'', ''dingtalk_secret'']"

definition env_mapping :: "(string \<times> string) list" where
  "env_mapping =
     [(''PREMIUM_THRESHOLD'', ''premium_threshold''),
      (''DISCOUNT_THRESHOLD'', ''discount_threshold'')]"

section \<open>Python's operators on the values\<close>

text \<open>\<^verbatim>\<open>if key in d: del d[key]\<close> for each key of a list, on a dict.\<close>

definition del_key :: "string \<Rightarrow> dict \<Rightarrow> dict" where
  "del_key key d = (if d key \<noteq> None then d(key := None) else d)"

definition del_keys :: "string list \<Rightarrow> dict \<Rightarrow> dict" where
  "del_keys keys d = fold del_key keys d"

text \<open>\<^verbatim>\<open>d.update(pairs)\<close> for a sequence of key/value pairs: in order, a later pair wins.\<close>

definition update_pairs :: "dict \<Rightarrow> (string \<times> jvalue) list \<Rightarrow> dict" where
  "update_pairs d ps = fold (\<lambda>(k, v) m. m(k \<mapsto> v)) ps d"

text \<open>
  \<^verbatim>\<open>code in v\<close> for a string \<open>code\<close>: an element of a list or tuple equal to it, a
  substring of a string, a key of a dict; the other values are not iterable.
\<close>

fun py_in :: "string \<Rightarrow> jvalue \<Rightarrow> error + bool" where
  "py_in code (JList xs) = Inr (JStr code \<in> set xs)"
| "py_in code (JTuple xs) = Inr (JStr code \<in> set xs)"
| "py_in code (JStr s) = Inr (sublist code s)"
| "py_in code (JDict kvs) = Inr (code \<in> fst ` set kvs)"
| "py_in code v = Inl TypeError"

text \<open>\<^verbatim>\<open>v.append(code)\<close>: only a list has the method.\<close>

fun py_append :: "jvalue \<Rightarrow> string \<Rightarrow> error + jvalue" where
  "py_append (JList xs) code = Inr (JList (xs @ [JStr code]))"
| "py_append v code = Inl AttributeError"

text \<open>Truth value of a value, as \<^verbatim>\<open>or\<close> tests it.\<close>

fun truthy :: "jvalue \<Rightarrow> bool" where
  "truthy JNull = False"
| "truthy (JBool b) = b"
| "truthy (JNum x) = (x \<noteq> 0)"
| "truthy (JStr s) = (s \<noteq> [])"
| "truthy (JList xs) = (xs \<noteq> [])"
| "truthy (JTuple xs) = (xs \<noteq> [])"
| "truthy (JDict kvs) = (kvs \<noteq> [])"

text \<open>
  What \<^verbatim>\<open>json.load\<close> returns for the text that \<^verbatim>\<open>json.dump\<close> writes for a value: the
  value, with every tuple in it as a list.
\<close>

primrec through_json :: "jvalue \<Rightarrow> jvalue" where
  "through_json JNull = JNull"
| "through_json (JBool b) = JBool b"
| "through_json (JNum x) = JNum x"
| "through_json (JStr s) = JStr s"
| "through_json (JList xs) = JList (map through_json xs)"
| "through_json (JTuple xs) = JList (map through_json xs)"
| "through_json (JDict kvs) = JDict (map (map_prod id through_json) kvs)"

text \<open>\<^verbatim>\<open>json.dump(d, f)\<close> for a dict: what a later \<^verbatim>\<open>json.load\<close> of the file returns.\<close>

definition json_dump :: "dict \<Rightarrow> dict" where
  "json_dump d = (\<lambda>k. map_option through_json (d k))"

text \<open>No tuple is in the value, at any depth.\<close>

fun tuple_free :: "jvalue \<Rightarrow> bool" where
  "tuple_free (JList xs) = list_all tuple_free xs"
| "tuple_free (JTuple xs) = False"
| "tuple_free (JDict kvs) = list_all (\<lambda>p. tuple_free (snd p)) kvs"
| "tuple_free v = True"

section \<open>The methods of ConfigManager\<close>

text \<open>
  \<^verbatim>\<open>save_config\<close>: a copy of the mapping without the sensitive keys goes to the file. Any
  exception is caught and printed.
\<close>

definition save_config :: "state \<Rightarrow> state" where
  "save_config s =
     (let config_to_save = del_keys sensitive_keys (config s)
      in case disk s of
           Writable \<Rightarrow> s\<lparr>config_file := JsonObject (json_dump config_to_save)\<rparr>
         | OpenFails \<Rightarrow> s\<lparr>printed := printed s @ [SaveFailed]\<rparr>
         | DumpFails \<Rightarrow> s\<lparr>config_file := Unreadable, printed := printed s @ [SaveFailed]\<rparr>)"

text \<open>
  Lines 47 to 65 of \<^verbatim>\<open>load_config\<close>: the mapping from the defaults and the file. A
  missing file is created from the defaults.
\<close>

definition load_file :: "state \<Rightarrow> state" where
  "load_file s =
     (case config_file s of
        Missing \<Rightarrow> save_config (s\<lparr>config := default_config\<rparr>)
      | Unreadable \<Rightarrow> s\<lparr>config := default_config, printed := printed s @ [ReadFailed]\<rparr>
      | JsonObject saved_config \<Rightarrow>
          s\<lparr>config := default_config ++ del_keys sensitive_keys saved_config\<rparr>
      | JsonPairs saved_config \<Rightarrow>
          s\<lparr>config := update_pairs default_config saved_config\<rparr>)"

text \<open>
  Lines 72 to 78: one round of the loop over \<^verbatim>\<open>env_mapping\<close>. \<open>float\<close> stands for
  Python's \<^verbatim>\<open>float\<close> on strings, \<open>None\<close> where it raises \<^verbatim>\<open>ValueError\<close>. An unset
  variable and an empty one are both skipped by \<^verbatim>\<open>if env_val\<close>.
\<close>

definition env_override :: "(string \<Rightarrow> real option) \<Rightarrow> string \<times> string \<Rightarrow> state \<Rightarrow> state" where
  "env_override float = (\<lambda>(env_key, config_key) s.
     case environ s env_key of
       None \<Rightarrow> s
     | Some env_val \<Rightarrow>
         if env_val = [] then s
         else (case float env_val of
                 Some x \<Rightarrow> s\<lparr>config := (config s)(config_key \<mapsto> JNum x)\<rparr>
               | None \<Rightarrow> s\<lparr>printed := printed s @ [EnvFormatError env_key env_val]\<rparr>))"

text \<open>\<^verbatim>\<open>os.environ.get(name, "")\<close>.\<close>

definition environ_get :: "state \<Rightarrow> string \<Rightarrow> string" where
  "environ_get s name = (case environ s name of None \<Rightarrow> [] | Some v \<Rightarrow> v)"

definition load_config :: "(string \<Rightarrow> real option) \<Rightarrow> state \<Rightarrow> state" where
  "load_config float s =
     (let s1 = fold (env_override float) env_mapping (load_file s)
      in s1\<lparr>dingtalk_webhook := JStr (environ_get s1 ''DINGTALK_WEBHOOK''),
            dingtalk_secret := JStr (environ_get s1 ''DINGTALK_SECRET'')\<rparr>)"

text \<open>\<^verbatim>\<open>get(key, default)\<close>; a call without \<^verbatim>\<open>default\<close> passes \<open>JNull\<close>.\<close>

definition get_cfg :: "string \<Rightarrow> jvalue \<Rightarrow> state \<Rightarrow> jvalue" where
  "get_cfg key dflt s =
     (if key = ''dingtalk_webhook''
      then (if truthy (dingtalk_webhook s) then dingtalk_webhook s else dflt)
      else if key = ''dingtalk_secret''
      then (if truthy (dingtalk_secret s) then dingtalk_secret s else dflt)
      else (case config s key of None \<Rightarrow> dflt | Some v \<Rightarrow> v))"

text \<open>\<^verbatim>\<open>set(key, value)\<close>.\<close>

definition set_cfg :: "string \<Rightarrow> jvalue \<Rightarrow> state \<Rightarrow> state" where
  "set_cfg key v s =
     save_config
       (if key = ''dingtalk_webhook'' then s\<lparr>dingtalk_webhook := v\<rparr>
        else if key = ''dingtalk_secret'' then s\<lparr>dingtalk_secret := v\<rparr>
        else s\<lparr>config := (config s)(key \<mapsto> v)\<rparr>)"

text \<open>
  \<^verbatim>\<open>check_reset_daily_alerts\<close>: the returned flag and the state. \<^verbatim>\<open>config.get\<close> of an
  absent key is \<^verbatim>\<open>None\<close>, which differs from every string.
\<close>

definition check_reset_daily_alerts :: "state \<Rightarrow> bool \<times> state" where
  "check_reset_daily_alerts s =
     (if config s ''last_alert_date'' \<noteq> Some (JStr (today s))
      then (True,
            save_config
              (s\<lparr>config := (config s)(''last_alert_date'' \<mapsto> JStr (today s),
                                       ''alerted_funds'' \<mapsto> JList [])\<rparr>))
      else (False, s))"

text \<open>\<^verbatim>\<open>self.config.get("alerted_funds", [])\<close>.\<close>

definition alerted_funds :: "state \<Rightarrow> jvalue" where
  "alerted_funds s = (case config s ''alerted_funds'' of None \<Rightarrow> JList [] | Some v \<Rightarrow> v)"

text \<open>
  \<^verbatim>\<open>is_fund_alerted\<close> and \<^verbatim>\<open>mark_fund_alerted\<close>: what the call returns or raises, and the
  state it leaves.
\<close>

definition is_fund_alerted :: "string \<Rightarrow> state \<Rightarrow> (error + bool) \<times> state" where
  "is_fund_alerted code s =
     (let s1 = snd (check_reset_daily_alerts s)
      in (py_in code (alerted_funds s1), s1))"

definition mark_fund_alerted :: "string \<Rightarrow> state \<Rightarrow> (error + unit) \<times> state" where
  "mark_fund_alerted code s =
     (let s1 = snd (check_reset_daily_alerts s)
      in case py_in code (alerted_funds s1) of
           Inl e \<Rightarrow> (Inl e, s1)
         | Inr True \<Rightarrow> (Inr (), s1)
         | Inr False \<Rightarrow>
             (case py_append (alerted_funds s1) code of
                Inl e \<Rightarrow> (Inl e, s1)
              | Inr funds \<Rightarrow>
                  (Inr (), save_config (s1\<lparr>config := (config s1)(''alerted_funds'' \<mapsto> funds)\<rparr>))))"

section \<open>Sequences of calls\<close>

text \<open>
  What can happen to a \<^verbatim>\<open>ConfigManager\<close> one after the other: a call of one of its
  methods, the date changing, or the disk starting to behave differently. A call is
  followed here for the state it leaves, whether it returned or raised; \<^verbatim>\<open>get\<close> reads
  and leaves the state as it is.
\<close>

datatype event =
    Load
  | Save
  | Get string jvalue
  | Set string jvalue
  | Rollover
  | IsAlerted string
  | Mark string
  | DateBecomes string
  | DiskBecomes disk_behaviour

fun perform :: "(string \<Rightarrow> real option) \<Rightarrow> event \<Rightarrow> state \<Rightarrow> state" where
  "perform float Load s = load_config float s"
| "perform float Save s = save_config s"
| "perform float (Get key dflt) s = s"
| "perform float (Set key v) s = set_cfg key v s"
| "perform float Rollover s = snd (check_reset_daily_alerts s)"
| "perform float (IsAlerted code) s = snd (is_fund_alerted code s)"
| "perform float (Mark code) s = snd (mark_fund_alerted code s)"
| "perform float (DateBecomes d) s = s\<lparr>today := d\<rparr>"
| "perform float (DiskBecomes b) s = s\<lparr>disk := b\<rparr>"

definition run :: "(string \<Rightarrow> real option) \<Rightarrow> event list \<Rightarrow> state \<Rightarrow> state" where
  "run float events s = fold (perform float) events s"

section \<open>Notions the properties are stated with\<close>

text \<open>The stored \<open>last_alert_date\<close> differs from today: the next rollover check resets.\<close>

definition rolls_over :: "state \<Rightarrow> bool" where
  "rolls_over s = (config s ''last_alert_date'' \<noteq> Some (JStr (today s)))"

text \<open>How often \<open>code\<close> occurs in a value of \<open>alerted_funds\<close>.\<close>

definition occurrences :: "string \<Rightarrow> jvalue \<Rightarrow> nat" where
  "occurrences code v = (case v of JList xs \<Rightarrow> count_list xs (JStr code) | _ \<Rightarrow> 0)"

text \<open>\<open>alerted_funds\<close> is a list in which \<open>code\<close> occurs once at most.\<close>

definition held_at_most_once :: "string \<Rightarrow> state \<Rightarrow> bool" where
  "held_at_most_once code s =
     (case alerted_funds s of JList xs \<Rightarrow> count_list xs (JStr code) \<le> 1 | _ \<Rightarrow> False)"

text \<open>The top-level keys that a file holds.\<close>

fun file_keys :: "disk_file \<Rightarrow> string set" where
  "file_keys Missing = {}"
| "file_keys Unreadable = {}"
| "file_keys (JsonObject m) = dom m"
| "file_keys (JsonPairs ps) = fst ` set ps"

text \<open>Neither \<open>dingtalk_webhook\<close> nor \<open>dingtalk_secret\<close> is among the keys.\<close>

definition credential_free :: "string set \<Rightarrow> bool" where
  "credential_free keys = (keys \<inter> set sensitive_keys = {})"

fun is_pairs :: "disk_file \<Rightarrow> bool" where
  "is_pairs (JsonPairs ps) = True"
| "is_pairs f = False"

text \<open>
  What holds of the mapping from a load on, when that load does not meet a list of
  pairs.
\<close>

definition settled :: "state \<Rightarrow> bool" where
  "settled s = (credential_free (dom (config s)) \<and> \<not> is_pairs (config_file s))"

text \<open>
  The three layers of a load, in the words of the specification. The layer of the disk
  is the loaded data once the credential keys are removed from it; a missing or
  unreadable file contributes nothing. The layer of the environment holds a threshold
  for each of the two variables that is set, not empty, and a number. \<open>overlay\<close> puts a
  layer on another: where the upper layer defines a key its value wins.
\<close>

definition disk_layer :: "disk_file \<Rightarrow> dict" where
  "disk_layer f =
     (case f of
        Missing \<Rightarrow> Map.empty
      | Unreadable \<Rightarrow> Map.empty
      | JsonObject m \<Rightarrow> (\<lambda>k. if k \<in> set sensitive_keys then None else m k)
      | JsonPairs ps \<Rightarrow> map_of (rev ps))"

definition threshold_override :: "(string \<Rightarrow> real option) \<Rightarrow> string option \<Rightarrow> jvalue option" where
  "threshold_override float env_val =
     (case env_val of
        None \<Rightarrow> None
      | Some v \<Rightarrow> if v = [] then None else map_option JNum (float v))"

definition env_layer :: "(string \<Rightarrow> real option) \<Rightarrow> (string \<rightharpoonup> string) \<Rightarrow> dict" where
  "env_layer float env =
     (\<lambda>k. if k = ''premium_threshold'' then threshold_override float (env ''PREMIUM_THRESHOLD'')
          else if k = ''discount_threshold'' then threshold_override float (env ''DISCOUNT_THRESHOLD'')
          else None)"

definition overlay :: "dict \<Rightarrow> dict \<Rightarrow> dict" where
  "overlay lower upper = (\<lambda>k. case upper k of Some v \<Rightarrow> Some v | None \<Rightarrow> lower k)"

section \<open>Sample runs\<close>

text \<open>
  A process started on 2024-05-01 in a directory without \<^verbatim>\<open>config.json\<close>, with no
  environment variable set and a disk that takes writes. The attributes do not exist
  before \<^verbatim>\<open>load_config\<close>: the fields hold placeholders that it overwrites.
\<close>

definition first_run :: state where
  "first_run =
     \<lparr>config = Map.empty, dingtalk_webhook = JNull, dingtalk_secret = JNull,
      environ = Map.empty, today = ''2024-05-01'', config_file = Missing,
      disk = Writable, printed = []\<rparr>"

text \<open>
  Python's \<^verbatim>\<open>float\<close> on the three strings of the samples: \<^verbatim>\<open>"25.5"\<close> is 25.5, and
  \<^verbatim>\<open>"abc"\<close> and the empty string raise \<^verbatim>\<open>ValueError\<close>. No sample applies it to another
  string.
\<close>

definition float_sample :: "string \<Rightarrow> real option" where
  "float_sample v = (if v = ''25.5'' then Some (51 / 2) else None)"

text \<open>
  After the first load and the rollover of that day, a caller stores a list that holds
  \<^verbatim>\<open>"X"\<close> twice.
\<close>

definition twice_held :: state where
  "twice_held =
     set_cfg ''alerted_funds'' (JList [JStr ''X'', JStr ''X''])
       (snd (check_reset_daily_alerts (load_config float_sample first_run)))"

text \<open>After the first load, \<^verbatim>\<open>"Y"\<close> is marked.\<close>

definition once_held :: state where
  "once_held = snd (mark_fund_alerted ''Y'' (load_config float_sample first_run))"

text \<open>A file left behind as a list of pairs, one of them a webhook.\<close>

definition stale_pairs :: state where
  "stale_pairs =
     first_run\<lparr>config_file := JsonPairs [(''dingtalk_webhook'', JStr ''https://stale'')]\<rparr>"

text \<open>The same webhook left behind in a JSON object.\<close>

definition stale_object :: state where
  "stale_object =
     first_run\<lparr>config_file := JsonObject [''dingtalk_webhook'' \<mapsto> JStr ''https://stale'']\<rparr>"

text \<open>A file with two keys, and the premium threshold overridden by the environment.\<close>

definition overridden :: state where
  "overridden =
     first_run\<lparr>environ := [''PREMIUM_THRESHOLD'' \<mapsto> ''25.5''],
               config_file := JsonObject [''premium_threshold'' \<mapsto> JNum 10,
                                          ''mode'' \<mapsto> JStr ''terminal'']\<rparr>"

text \<open>A file that does not parse.\<close>

definition garbled :: state where
  "garbled = first_run\<lparr>config_file := Unreadable\<rparr>"

text \<open>One threshold variable that is no number, and one that is.\<close>

definition mistyped :: state where
  "mistyped =
     first_run\<lparr>environ := [''PREMIUM_THRESHOLD'' \<mapsto> ''abc'',
                           ''DISCOUNT_THRESHOLD'' \<mapsto> ''25.5'']\<rparr>"

text \<open>A threshold variable that is set to the empty string.\<close>

definition empty_threshold :: state where
  "empty_threshold = first_run\<lparr>environ := [''PREMIUM_THRESHOLD'' \<mapsto> []]\<rparr>"

text \<open>The first load, with the premium threshold overridden by the environment.\<close>

definition env_loaded :: state where
  "env_loaded =
     load_config float_sample (first_run\<lparr>environ := [''PREMIUM_THRESHOLD'' \<mapsto> ''25.5'']\<rparr>)"

text \<open>After the first load, the caller sets another mode and a key of its own.\<close>

definition customised :: state where
  "customised =
     set_cfg ''watch'' (JList [JStr ''161725'', JStr ''501018''])
       (set_cfg ''mode'' (JStr ''terminal'') (load_config float_sample first_run))"

text \<open>A later process, started where \<open>customised\<close> has saved its mapping.\<close>

definition customised_again :: state where
  "customised_again = first_run\<lparr>config_file := config_file (save_config customised)\<rparr>"

text \<open>After the first load, the caller sets a key of its own to a tuple of two codes.\<close>

definition tupled :: state where
  "tupled =
     set_cfg ''watch'' (JTuple [JStr ''161725'', JStr ''501018''])
       (load_config float_sample first_run)"

text \<open>A later process, started where \<open>tupled\<close> has saved its mapping.\<close>

definition tupled_again :: state where
  "tupled_again = first_run\<lparr>config_file := config_file (save_config tupled)\<rparr>"

section \<open>Saving and the rollover check\<close>

text \<open>The equations that unfold a call on a sample.\<close>

lemmas method_defs =
  load_config_def load_file_def save_config_def env_override_def environ_get_def
  set_cfg_def check_reset_daily_alerts_def is_fund_alerted_def mark_fund_alerted_def
  alerted_funds_def del_keys_def del_key_def update_pairs_def json_dump_def
  default_config_def sensitive_keys_def env_mapping_def Let_def

lemma save_config_config: "config (save_config s) = config s"
  by (simp add: save_config_def Let_def split: disk_behaviour.splits)

lemma save_config_today: "today (save_config s) = today s"
  by (simp add: save_config_def Let_def split: disk_behaviour.splits)

lemma save_config_environ: "environ (save_config s) = environ s"
  by (simp add: save_config_def Let_def split: disk_behaviour.splits)

lemma alerted_funds_save: "alerted_funds (save_config s) = alerted_funds s"
  by (simp add: alerted_funds_def save_config_config)

lemma rolls_over_save: "rolls_over (save_config s) = rolls_over s"
  by (simp add: rolls_over_def save_config_config save_config_today)

lemma check_reset_last_alert_date:
  "config (snd (check_reset_daily_alerts s)) ''last_alert_date'' = Some (JStr (today s))"
  by (simp add: check_reset_daily_alerts_def save_config_config)

lemma check_reset_today: "today (snd (check_reset_daily_alerts s)) = today s"
  by (simp add: check_reset_daily_alerts_def save_config_today)

lemma check_reset_rolls:
  "rolls_over s \<Longrightarrow> alerted_funds (snd (check_reset_daily_alerts s)) = JList []"
  by (simp add: check_reset_daily_alerts_def rolls_over_def alerted_funds_def save_config_config)

lemma check_reset_stays:
  "\<not> rolls_over s \<Longrightarrow> check_reset_daily_alerts s = (False, s)"
  by (simp add: check_reset_daily_alerts_def rolls_over_def)

lemma check_reset_not_rolls_over: "\<not> rolls_over (snd (check_reset_daily_alerts s))"
  by (simp add: rolls_over_def check_reset_last_alert_date check_reset_today)

lemma check_reset_config:
  "config (snd (check_reset_daily_alerts s)) =
     (if rolls_over s
      then (config s)(''last_alert_date'' \<mapsto> JStr (today s), ''alerted_funds'' \<mapsto> JList [])
      else config s)"
  by (simp add: check_reset_daily_alerts_def rolls_over_def save_config_config)

text \<open>
  C2. With the date fixed, two calls of \<^verbatim>\<open>check_reset_daily_alerts\<close> in a row clear
  \<open>alerted_funds\<close> and advance \<open>last_alert_date\<close> once. The first call returns true exactly
  when the stored \<open>last_alert_date\<close> differs from today, and it is then that it sets the
  date to today and \<open>alerted_funds\<close> to the empty list; the second call returns false
  and leaves the state (mapping, file and output) as the first call left it.
\<close>

theorem check_reset_twice:
  "fst (check_reset_daily_alerts s) = rolls_over s
   \<and> config (snd (check_reset_daily_alerts s)) =
       (if rolls_over s
        then (config s)(''last_alert_date'' \<mapsto> JStr (today s), ''alerted_funds'' \<mapsto> JList [])
        else config s)
   \<and> check_reset_daily_alerts (snd (check_reset_daily_alerts s))
       = (False, snd (check_reset_daily_alerts s))"
proof -
  have "fst (check_reset_daily_alerts s) = rolls_over s"
    by (simp add: check_reset_daily_alerts_def rolls_over_def)
  moreover have "check_reset_daily_alerts (snd (check_reset_daily_alerts s))
       = (False, snd (check_reset_daily_alerts s))"
    using check_reset_not_rolls_over by (rule check_reset_stays)
  ultimately show ?thesis by (simp add: check_reset_config)
qed

section \<open>Marking and asking\<close>

lemma mark_last_alert_date:
  "config (snd (mark_fund_alerted code s)) ''last_alert_date'' = Some (JStr (today s))"
  by (simp add: mark_fund_alerted_def Let_def check_reset_last_alert_date save_config_config
      split: sum.splits bool.splits)

lemma mark_today: "today (snd (mark_fund_alerted code s)) = today s"
  by (simp add: mark_fund_alerted_def Let_def check_reset_today save_config_today
      split: sum.splits bool.splits)

lemma mark_on_list:
  assumes "alerted_funds s = JList xs" and "\<not> rolls_over s"
  shows "mark_fund_alerted code s =
     (Inr (), if JStr code \<in> set xs then s
              else save_config (s\<lparr>config := (config s)(''alerted_funds'' \<mapsto> JList (xs @ [JStr code]))\<rparr>))"
  using assms by (simp add: mark_fund_alerted_def Let_def check_reset_stays)

lemma mark_present:
  assumes "\<not> rolls_over s" and "py_in code (alerted_funds s) = Inr True"
  shows "mark_fund_alerted code s = (Inr (), s)"
  using assms by (simp add: mark_fund_alerted_def Let_def check_reset_stays)

lemma py_append_list: "py_append v code = Inr w \<Longrightarrow> \<exists>xs. v = JList xs \<and> w = JList (xs @ [JStr code])"
  by (cases v) auto

lemma mark_settled:
  assumes "fst (mark_fund_alerted code s) = Inr ()"
  shows "\<not> rolls_over (snd (mark_fund_alerted code s))
         \<and> py_in code (alerted_funds (snd (mark_fund_alerted code s))) = Inr True"
proof -
  let ?s1 = "snd (check_reset_daily_alerts s)"
  have s1: "\<not> rolls_over ?s1" by (rule check_reset_not_rolls_over)
  show ?thesis
  proof (cases "py_in code (alerted_funds ?s1)")
    case (Inl e)
    with assms show ?thesis by (simp add: mark_fund_alerted_def Let_def)
  next
    case (Inr b)
    show ?thesis
    proof (cases b)
      case True
      with Inr s1 show ?thesis by (simp add: mark_fund_alerted_def Let_def)
    next
      case False
      show ?thesis
      proof (cases "py_append (alerted_funds ?s1) code")
        case (Inl e)
        with Inr False assms show ?thesis by (simp add: mark_fund_alerted_def Let_def)
      next
        case (Inr funds)
        then obtain xs where "funds = JList (xs @ [JStr code])"
          by (auto dest: py_append_list)
        with Inr \<open>py_in code (alerted_funds ?s1) = Inr b\<close> False s1 show ?thesis
          by (simp add: mark_fund_alerted_def Let_def rolls_over_save alerted_funds_save)
            (simp add: alerted_funds_def rolls_over_def)
      qed
    qed
  qed
qed

lemma mark_second:
  assumes "fst (mark_fund_alerted code s) = Inr ()"
  shows "mark_fund_alerted code (snd (mark_fund_alerted code s)) = (Inr (), snd (mark_fund_alerted code s))"
  using mark_settled [OF assms] by (simp add: mark_present)

lemma mark_occurrences_list:
  assumes "alerted_funds s = JList xs" and "\<not> rolls_over s"
  shows "occurrences code (alerted_funds (snd (mark_fund_alerted code s)))
         = (if JStr code \<in> set xs then count_list xs (JStr code) else 1)"
  using assms
  by (simp add: mark_on_list alerted_funds_save occurrences_def)
     (simp add: alerted_funds_def)

lemma mark_after_reset:
  "mark_fund_alerted code (snd (check_reset_daily_alerts s)) = mark_fund_alerted code s"
  by (simp add: mark_fund_alerted_def Let_def check_reset_stays check_reset_not_rolls_over)

lemma held_after_reset:
  assumes "held_at_most_once code s \<or> rolls_over s"
  shows "held_at_most_once code (snd (check_reset_daily_alerts s))"
proof (cases "rolls_over s")
  case True
  then show ?thesis by (simp add: held_at_most_once_def check_reset_rolls)
next
  case False
  with assms show ?thesis by (simp add: check_reset_stays)
qed

lemma mark_once_settled:
  assumes "held_at_most_once code s" and "\<not> rolls_over s"
  shows "fst (mark_fund_alerted code s) = Inr ()
         \<and> occurrences code (alerted_funds (snd (mark_fund_alerted code s))) = 1"
proof -
  from assms(1) obtain xs where xs: "alerted_funds s = JList xs" "count_list xs (JStr code) \<le> 1"
    by (auto simp: held_at_most_once_def split: jvalue.splits)
  have "JStr code \<in> set xs \<Longrightarrow> count_list xs (JStr code) = 1"
    using xs(2) count_list_0_iff [of xs "JStr code"] by arith
  then have "occurrences code (alerted_funds (snd (mark_fund_alerted code s))) = 1"
    using xs(1) assms(2) by (simp add: mark_occurrences_list)
  moreover have "fst (mark_fund_alerted code s) = Inr ()"
    using xs(1) assms(2) by (simp add: mark_on_list)
  ultimately show ?thesis by simp
qed

text \<open>
  C3, amended. With the date fixed, let \<open>alerted_funds\<close> be a list that holds \<open>code\<close>
  once at most, or let the stored date differ from today (the first call then starts
  from the empty list). Then \<^verbatim>\<open>mark_fund_alerted(code)\<close> returns, after two calls
  \<open>alerted_funds\<close> holds \<open>code\<close> exactly once, and the second call returns without
  changing anything: it adds no entry and does not save.
\<close>

theorem mark_twice_once:
  assumes "held_at_most_once code s \<or> rolls_over s"
  shows "fst (mark_fund_alerted code s) = Inr ()
         \<and> occurrences code (alerted_funds (snd (mark_fund_alerted code (snd (mark_fund_alerted code s))))) = 1
         \<and> mark_fund_alerted code (snd (mark_fund_alerted code s))
             = (Inr (), snd (mark_fund_alerted code s))"
proof -
  let ?s1 = "snd (check_reset_daily_alerts s)"
  have "held_at_most_once code ?s1" using assms by (rule held_after_reset)
  then have "fst (mark_fund_alerted code ?s1) = Inr ()
         \<and> occurrences code (alerted_funds (snd (mark_fund_alerted code ?s1))) = 1"
    using check_reset_not_rolls_over by (rule mark_once_settled)
  then have first: "fst (mark_fund_alerted code s) = Inr ()"
    and once: "occurrences code (alerted_funds (snd (mark_fund_alerted code s))) = 1"
    by (simp_all add: mark_after_reset)
  from first have "mark_fund_alerted code (snd (mark_fund_alerted code s))
      = (Inr (), snd (mark_fund_alerted code s))"
    by (rule mark_second)
  with first once show ?thesis by simp
qed

text \<open>
  The day's list of \<open>once_held\<close> holds \<^verbatim>\<open>"Y"\<close> only; marking \<^verbatim>\<open>"X"\<close> twice leaves one
  \<^verbatim>\<open>"X"\<close>.
\<close>

theorem mark_twice_once_witness:
  "(held_at_most_once ''X'' once_held \<or> rolls_over once_held)
   \<and> \<not> rolls_over once_held
   \<and> fst (mark_fund_alerted ''X'' once_held) = Inr ()
   \<and> occurrences ''X''
        (alerted_funds (snd (mark_fund_alerted ''X'' (snd (mark_fund_alerted ''X'' once_held))))) = 1"
proof -
  have held: "held_at_most_once ''X'' once_held"
    by (simp add: held_at_most_once_def once_held_def first_run_def float_sample_def method_defs)
  have stays: "\<not> rolls_over once_held"
    by (simp add: rolls_over_def once_held_def first_run_def float_sample_def method_defs)
  from held have "held_at_most_once ''X'' once_held \<or> rolls_over once_held" ..
  from mark_twice_once [OF this] held stays show ?thesis by blast
qed

text \<open>
  Without the condition the property fails. A list that already holds \<^verbatim>\<open>"X"\<close> twice,
  stored on the same day, still holds it twice after \<^verbatim>\<open>mark_fund_alerted("X")\<close> is called
  twice: the method only refrains from appending.
\<close>

theorem mark_twice_counterexample:
  "occurrences ''X''
     (alerted_funds (snd (mark_fund_alerted ''X'' (snd (mark_fund_alerted ''X'' twice_held))))) = 2"
  by (simp add: twice_held_def first_run_def float_sample_def occurrences_def method_defs)

text \<open>
  C4. When \<^verbatim>\<open>mark_fund_alerted(code)\<close> was called on one date and the date is then another
  one, the next \<^verbatim>\<open>is_fund_alerted(code)\<close> returns false: its rollover check empties
  \<open>alerted_funds\<close> before the membership test.
\<close>

theorem rollover_clears_mark:
  "d \<noteq> today s \<Longrightarrow>
   fst (is_fund_alerted code ((snd (mark_fund_alerted code s))\<lparr>today := d\<rparr>)) = Inr False"
proof -
  assume d: "d \<noteq> today s"
  let ?s = "(snd (mark_fund_alerted code s))\<lparr>today := d\<rparr>"
  have "rolls_over ?s"
    using d by (simp add: rolls_over_def mark_last_alert_date)
  then have "alerted_funds (snd (check_reset_daily_alerts ?s)) = JList []"
    by (rule check_reset_rolls)
  then show ?thesis
    by (simp add: is_fund_alerted_def Let_def)
qed

text \<open>
  \<^verbatim>\<open>"Y"\<close> is marked on 2024-05-01: asked on that day the answer is true, asked on the
  next day it is false.
\<close>

theorem rollover_clears_mark_witness:
  "''2024-05-02'' \<noteq> today (load_config float_sample first_run)
   \<and> fst (is_fund_alerted ''Y'' once_held) = Inr True
   \<and> fst (is_fund_alerted ''Y'' (once_held\<lparr>today := ''2024-05-02''\<rparr>)) = Inr False"
proof -
  have later: "''2024-05-02'' \<noteq> today (load_config float_sample first_run)"
    by (simp add: first_run_def float_sample_def method_defs)
  have "fst (is_fund_alerted ''Y'' once_held) = Inr True"
    by (simp add: once_held_def first_run_def float_sample_def method_defs)
  with rollover_clears_mark [OF later, of "''Y''"] later show ?thesis
    by (simp add: once_held_def)
qed

section \<open>What reaches the file\<close>

lemma dom_del_keys: "dom (del_keys keys d) = dom d - set keys"
  unfolding del_keys_def
  by (induction keys arbitrary: d) (auto simp: del_key_def split: if_splits)

lemma dom_json_dump: "dom (json_dump d) = dom d"
  by (auto simp: json_dump_def)

lemma credential_free_del_keys: "credential_free (dom (del_keys sensitive_keys d))"
  by (auto simp: credential_free_def dom_del_keys)

lemma save_config_file:
  "config_file (save_config s) = config_file s
   \<or> credential_free (file_keys (config_file (save_config s)))"
  by (cases "disk s")
    (auto simp: save_config_def credential_free_def dom_json_dump dom_del_keys)

lemma env_override_file: "config_file (env_override float p s) = config_file s"
  by (cases p) (simp add: env_override_def split: option.splits)

lemma env_overrides_file: "config_file (fold (env_override float) ps s) = config_file s"
  by (induction ps arbitrary: s) (simp_all add: env_override_file)

lemma load_file_file:
  "config_file (load_file s) = config_file s
   \<or> credential_free (file_keys (config_file (load_file s)))"
proof (cases "config_file s")
  case Missing
  then show ?thesis
    using save_config_file [of "s\<lparr>config := default_config\<rparr>"] by (simp add: load_file_def)
qed (simp_all add: load_file_def)

lemma load_config_file:
  "config_file (load_config float s) = config_file s
   \<or> credential_free (file_keys (config_file (load_config float s)))"
  using load_file_file [of s] by (simp add: load_config_def Let_def env_overrides_file)

lemma check_reset_file:
  "config_file (snd (check_reset_daily_alerts s)) = config_file s
   \<or> credential_free (file_keys (config_file (snd (check_reset_daily_alerts s))))"
  using save_config_file
    [of "s\<lparr>config := (config s)(''last_alert_date'' \<mapsto> JStr (today s),
                                   ''alerted_funds'' \<mapsto> JList [])\<rparr>"]
  by (simp add: check_reset_daily_alerts_def)

lemma mark_file:
  "config_file (snd (mark_fund_alerted code s)) = config_file s
   \<or> credential_free (file_keys (config_file (snd (mark_fund_alerted code s))))"
proof -
  let ?s1 = "snd (check_reset_daily_alerts s)"
  have saved: "config_file (save_config (?s1\<lparr>config := m\<rparr>)) = config_file ?s1
     \<or> credential_free (file_keys (config_file (save_config (?s1\<lparr>config := m\<rparr>))))" for m
    using save_config_file [of "?s1\<lparr>config := m\<rparr>"] by simp
  have step: "config_file (snd (mark_fund_alerted code s)) = config_file ?s1
     \<or> credential_free (file_keys (config_file (snd (mark_fund_alerted code s))))"
    using saved
    by (simp add: mark_fund_alerted_def Let_def split: sum.splits bool.splits)
  with check_reset_file [of s] show ?thesis by auto
qed

lemma perform_file:
  "config_file (perform float c s) = config_file s
   \<or> credential_free (file_keys (config_file (perform float c s)))"
proof (cases c)
  case Load
  then show ?thesis using load_config_file by simp
next
  case Save
  then show ?thesis using save_config_file by simp
next
  case (Set key v)
  have "config_file (save_config s') = config_file s
     \<or> credential_free (file_keys (config_file (save_config s')))"
    if "config_file s' = config_file s" for s'
    using save_config_file [of s'] that by simp
  with Set show ?thesis by (simp add: set_cfg_def)
next
  case Rollover
  then show ?thesis using check_reset_file by simp
next
  case (IsAlerted code)
  then show ?thesis using check_reset_file by (simp add: is_fund_alerted_def Let_def)
next
  case (Mark code)
  then show ?thesis using mark_file by simp
qed simp_all

lemma run_file:
  "config_file (run float events s) = config_file s
   \<or> credential_free (file_keys (config_file (run float events s)))"
proof (induction events arbitrary: s)
  case Nil
  show ?case by (simp add: run_def)
next
  case (Cons e events)
  let ?s1 = "perform float e s"
  have run: "run float (e # events) s = run float events ?s1"
    by (simp add: run_def)
  from Cons.IH [of ?s1] perform_file [of float e s] show ?case
    unfolding run by auto
qed

text \<open>
  C1. A save that succeeds writes the mapping without \<open>dingtalk_webhook\<close> and
  \<open>dingtalk_secret\<close>, as JSON holds it. And after every sequence of loads, saves, gets, sets (of any key,
  a credential key included), rollover checks, \<^verbatim>\<open>is_fund_alerted\<close> and
  \<^verbatim>\<open>mark_fund_alerted\<close> calls, with the date and the behaviour of the disk changing in
  between at will, the file is as it was found at the start or it holds neither of the
  two keys. A file that holds one of them is therefore a file that no save has written.
\<close>

theorem saved_file_credential_free:
  "config_file (save_config (s\<lparr>disk := Writable\<rparr>))
     = JsonObject (json_dump (del_keys sensitive_keys (config s)))
   \<and> credential_free (dom (json_dump (del_keys sensitive_keys (config s))))
   \<and> (config_file (run float events s) = config_file s
       \<or> credential_free (file_keys (config_file (run float events s))))"
proof -
  have "config_file (save_config (s\<lparr>disk := Writable\<rparr>))
      = JsonObject (json_dump (del_keys sensitive_keys (config s)))"
    by (simp add: save_config_def)
  moreover have "credential_free (dom (json_dump (del_keys sensitive_keys (config s))))"
    by (simp add: dom_json_dump credential_free_del_keys)
  moreover have "config_file (run float events s) = config_file s
      \<or> credential_free (file_keys (config_file (run float events s)))"
    by (rule run_file)
  ultimately show ?thesis by simp
qed

section \<open>What the mapping holds\<close>

lemma credential_free_insert:
  "credential_free (insert k A) = (k \<notin> set sensitive_keys \<and> credential_free A)"
  by (auto simp: credential_free_def)

lemma credential_free_default: "credential_free (dom default_config)"
  by (simp add: default_config_def credential_free_def sensitive_keys_def)

lemma credential_free_Un: "credential_free (A \<union> B) = (credential_free A \<and> credential_free B)"
  by (auto simp: credential_free_def)

lemma save_config_not_pairs:
  "\<not> is_pairs (config_file s) \<Longrightarrow> \<not> is_pairs (config_file (save_config s))"
  by (cases "disk s") (simp_all add: save_config_def)

lemma settled_save: "settled s \<Longrightarrow> settled (save_config s)"
  by (simp add: settled_def save_config_config save_config_not_pairs)

lemma env_override_config:
  "dom (config (env_override float (e, k) s)) \<subseteq> insert k (dom (config s))"
  by (auto simp: env_override_def split: option.splits if_splits)

lemma env_override_settled:
  assumes "settled s" and "k \<notin> set sensitive_keys"
  shows "settled (env_override float (e, k) s)"
proof -
  have "credential_free (insert k (dom (config s)))"
    using assms by (simp add: credential_free_insert settled_def)
  then have "credential_free (dom (config (env_override float (e, k) s)))"
    using env_override_config [of float e k s] by (auto simp: credential_free_def)
  with assms(1) show ?thesis
    by (simp add: settled_def env_override_file)
qed

lemma env_overrides_settled:
  assumes "settled s"
  shows "settled (fold (env_override float) env_mapping s)"
  using assms
  by (simp add: env_mapping_def env_override_settled sensitive_keys_def)

lemma load_file_settled:
  assumes "\<not> is_pairs (config_file s)"
  shows "settled (load_file s)"
proof (cases "config_file s")
  case Missing
  have "settled (s\<lparr>config := default_config\<rparr>)"
    using assms by (simp add: settled_def credential_free_default)
  with Missing show ?thesis by (simp add: load_file_def settled_save)
next
  case Unreadable
  then show ?thesis by (simp add: load_file_def settled_def credential_free_default)
next
  case (JsonObject m)
  then show ?thesis
    by (simp add: load_file_def settled_def credential_free_Un credential_free_default
        credential_free_del_keys)
next
  case (JsonPairs ps)
  with assms show ?thesis by simp
qed

lemma load_config_settled:
  assumes "\<not> is_pairs (config_file s)"
  shows "settled (load_config float s)"
proof -
  have "settled (fold (env_override float) env_mapping (load_file s))"
    using assms by (intro env_overrides_settled load_file_settled)
  then show ?thesis by (simp add: load_config_def Let_def settled_def)
qed

lemma set_cfg_settled:
  assumes "settled s"
  shows "settled (set_cfg key v s)"
proof -
  have "settled (s\<lparr>config := (config s)(key \<mapsto> v)\<rparr>)"
    if "key \<noteq> ''dingtalk_webhook''" and "key \<noteq> ''dingtalk_secret''"
    using assms that by (simp add: settled_def credential_free_insert sensitive_keys_def)
  moreover have "settled (s\<lparr>dingtalk_webhook := v\<rparr>)" and "settled (s\<lparr>dingtalk_secret := v\<rparr>)"
    using assms by (simp_all add: settled_def)
  ultimately show ?thesis by (simp add: set_cfg_def settled_save)
qed

lemma check_reset_settled:
  assumes "settled s"
  shows "settled (snd (check_reset_daily_alerts s))"
proof -
  have "settled (s\<lparr>config := (config s)(''last_alert_date'' \<mapsto> JStr (today s),
                                        ''alerted_funds'' \<mapsto> JList [])\<rparr>)"
    using assms by (simp add: settled_def credential_free_insert sensitive_keys_def)
  with assms show ?thesis by (simp add: check_reset_daily_alerts_def settled_save)
qed

lemma mark_settled_state:
  assumes "settled s"
  shows "settled (snd (mark_fund_alerted code s))"
proof -
  let ?s1 = "snd (check_reset_daily_alerts s)"
  have s1: "settled ?s1" using assms by (rule check_reset_settled)
  then have "settled (?s1\<lparr>config := (config ?s1)(''alerted_funds'' \<mapsto> funds)\<rparr>)" for funds
    by (simp add: settled_def credential_free_insert sensitive_keys_def)
  with s1 show ?thesis
    by (simp add: mark_fund_alerted_def Let_def settled_save split: sum.splits bool.splits)
qed

lemma perform_settled:
  assumes "settled s"
  shows "settled (perform float c s)"
proof (cases c)
  case Load
  from assms have "\<not> is_pairs (config_file s)" by (simp add: settled_def)
  with Load show ?thesis by (simp add: load_config_settled)
next
  case Save
  with assms show ?thesis by (simp add: settled_save)
next
  case (Get key dflt)
  with assms show ?thesis by simp
next
  case (Set key v)
  with assms show ?thesis by (simp add: set_cfg_settled)
next
  case Rollover
  with assms show ?thesis by (simp add: check_reset_settled)
next
  case (IsAlerted code)
  with assms show ?thesis by (simp add: is_fund_alerted_def Let_def check_reset_settled)
next
  case (Mark code)
  with assms show ?thesis by (simp add: mark_settled_state)
next
  case (DateBecomes d)
  with assms show ?thesis by (simp add: settled_def)
next
  case (DiskBecomes b)
  with assms show ?thesis by (simp add: settled_def)
qed

lemma run_settled: "settled s \<Longrightarrow> settled (run float events s)"
  unfolding run_def by (induction events arbitrary: s) (simp_all add: perform_settled)

text \<open>
  When the file that a load finds is missing, unreadable or a JSON object, the mapping
  holds neither \<open>dingtalk_webhook\<close> nor \<open>dingtalk_secret\<close> after that load and after
  every later call.
\<close>

lemma credential_free_unless_pairs:
  assumes "\<not> is_pairs (config_file s)"
  shows "credential_free (dom (config (run float (Load # events) s)))"
proof -
  have "settled (load_config float s)" using assms by (rule load_config_settled)
  then have "settled (run float events (load_config float s))" by (rule run_settled)
  then show ?thesis by (simp add: run_def settled_def)
qed

text \<open>
  C10. After a load and after every later call the mapping is to hold neither
  \<open>dingtalk_webhook\<close> nor \<open>dingtalk_secret\<close>: the load removes them from what it read
  (the comment at line 52) and they never enter the mapping (the comment at line 80).
  The load does not keep this for a file that is a JSON list of pairs. Such a list
  holds no string, so \<^verbatim>\<open>key in saved_config\<close> is false and nothing is deleted, and
  \<^verbatim>\<open>update\<close> merges the pairs: the webhook of the file is in the mapping after the
  load. The same webhook in a JSON object is removed.
\<close>

theorem stale_pairs_enter_mapping:
  "config (run float_sample [Load] stale_pairs) ''dingtalk_webhook''
     = Some (JStr ''https://stale'')
   \<and> config (run float_sample [Load] stale_object) ''dingtalk_webhook'' = None"
  by (simp add: run_def stale_pairs_def stale_object_def first_run_def float_sample_def
      method_defs)

section \<open>Loading\<close>

lemma del_keys_apply: "del_keys keys d k = (if k \<in> set keys then None else d k)"
  unfolding del_keys_def
  by (induction keys arbitrary: d) (auto simp: del_key_def)

lemma update_pairs_apply:
  "update_pairs d ps k = (case map_of (rev ps) k of Some v \<Rightarrow> Some v | None \<Rightarrow> d k)"
  unfolding update_pairs_def
  by (induction ps arbitrary: d) (auto simp: map_add_def split: option.splits)

lemma load_file_config:
  "config (load_file s) = overlay default_config (disk_layer (config_file s))"
proof (cases "config_file s")
  case (JsonObject m)
  then show ?thesis
    by (auto simp: load_file_def overlay_def disk_layer_def map_add_def del_keys_apply
        split: option.splits)
next
  case (JsonPairs ps)
  then show ?thesis
    by (auto simp: load_file_def overlay_def disk_layer_def update_pairs_apply)
qed (auto simp: load_file_def overlay_def disk_layer_def save_config_config)

lemma load_file_environ: "environ (load_file s) = environ s"
  by (simp add: load_file_def save_config_environ split: disk_file.splits)

lemma env_override_environ: "environ (env_override float p s) = environ s"
  by (cases p) (simp add: env_override_def split: option.splits)

lemma env_override_apply:
  "config (env_override float (e, c) s) k =
     (if k = c then (case threshold_override float (environ s e) of
                       Some v \<Rightarrow> Some v | None \<Rightarrow> config s k)
      else config s k)"
  by (simp add: env_override_def threshold_override_def split: option.splits)

lemma env_overrides_config:
  "config (fold (env_override float) env_mapping s) = overlay (config s) (env_layer float (environ s))"
  by (rule ext)
    (simp add: env_mapping_def env_override_apply env_override_environ overlay_def env_layer_def
      split: option.splits)

lemma overlay_apply:
  "overlay lower upper k = (case upper k of Some v \<Rightarrow> Some v | None \<Rightarrow> lower k)"
  by (simp add: overlay_def)

lemma load_precedence:
  "config (load_config float s) =
     overlay (overlay default_config (disk_layer (config_file s))) (env_layer float (environ s))"
  by (simp add: load_config_def Let_def env_overrides_config load_file_config load_file_environ)

text \<open>
  C6. A load builds the mapping in layers: the defaults, on them the values of the disk
  (the loaded data without the credential keys), on them the threshold overrides of the
  environment. So a key that the environment defines has the environment's value; a key
  that the environment does not define and the disk does has the disk's value; any other
  key has its default, if it has one.
\<close>

theorem load_layers:
  "config (load_config float s) =
     overlay (overlay default_config (disk_layer (config_file s))) (env_layer float (environ s))
   \<and> (env_layer float (environ s) k = Some v \<longrightarrow> config (load_config float s) k = Some v)
   \<and> (env_layer float (environ s) k = None \<and> disk_layer (config_file s) k = Some v
        \<longrightarrow> config (load_config float s) k = Some v)
   \<and> (env_layer float (environ s) k = None \<and> disk_layer (config_file s) k = None
        \<longrightarrow> config (load_config float s) k = default_config k)"
proof -
  let ?disk = "disk_layer (config_file s)" and ?env = "env_layer float (environ s)"
  have layers: "config (load_config float s) = overlay (overlay default_config ?disk) ?env"
    by (rule load_precedence)
  have "config (load_config float s) k = Some v" if "?env k = Some v"
    using that by (simp add: layers overlay_apply)
  moreover have "config (load_config float s) k = Some v"
    if "?env k = None" and "?disk k = Some v"
    using that by (simp add: layers overlay_apply)
  moreover have "config (load_config float s) k = default_config k"
    if "?env k = None" and "?disk k = None"
    using that by (simp add: layers overlay_apply)
  ultimately show ?thesis using layers by blast
qed

text \<open>
  In \<open>overridden\<close> the premium threshold is 10 in the file and 25.5 in the environment,
  the mode is in the file only, and the discount threshold is in neither.
\<close>

theorem load_layers_witness:
  "env_layer float_sample (environ overridden) ''premium_threshold'' = Some (JNum (51 / 2))
   \<and> config (load_config float_sample overridden) ''premium_threshold'' = Some (JNum (51 / 2))
   \<and> env_layer float_sample (environ overridden) ''mode'' = None
   \<and> disk_layer (config_file overridden) ''mode'' = Some (JStr ''terminal'')
   \<and> config (load_config float_sample overridden) ''mode'' = Some (JStr ''terminal'')
   \<and> disk_layer (config_file overridden) ''discount_threshold'' = None
   \<and> config (load_config float_sample overridden) ''discount_threshold'' = Some (JNum 40)"
proof -
  have env: "env_layer float_sample (environ overridden) ''premium_threshold'' = Some (JNum (51 / 2))"
    and no_env: "env_layer float_sample (environ overridden) ''mode'' = None"
      "env_layer float_sample (environ overridden) ''discount_threshold'' = None"
    by (simp_all add: env_layer_def threshold_override_def overridden_def first_run_def
        float_sample_def)
  have onfile: "disk_layer (config_file overridden) ''mode'' = Some (JStr ''terminal'')"
    and not_on_file: "disk_layer (config_file overridden) ''discount_threshold'' = None"
    by (simp_all add: disk_layer_def overridden_def first_run_def sensitive_keys_def)
  have dflt: "default_config ''discount_threshold'' = Some (JNum 40)"
    by (simp add: default_config_def)
  from load_layers [of float_sample overridden "''premium_threshold''" "JNum (51 / 2)"] env
  have "config (load_config float_sample overridden) ''premium_threshold'' = Some (JNum (51 / 2))"
    by blast
  moreover
  from load_layers [of float_sample overridden "''mode''" "JStr ''terminal''"] no_env(1) onfile
  have "config (load_config float_sample overridden) ''mode'' = Some (JStr ''terminal'')"
    by blast
  moreover
  from load_layers [THEN conjunct2, of float_sample overridden "''discount_threshold''"]
    no_env(2) not_on_file dflt
  have "config (load_config float_sample overridden) ''discount_threshold'' = Some (JNum 40)"
    by simp
  ultimately show ?thesis using env no_env(1) onfile not_on_file by blast
qed

lemma env_override_printed:
  "printed (env_override float (e, c) s) =
     printed s @ (case environ s e of
                    None \<Rightarrow> []
                  | Some v \<Rightarrow> if v \<noteq> [] \<and> float v = None then [EnvFormatError e v] else [])"
  by (simp add: env_override_def split: option.splits)

lemma load_config_printed:
  "printed (load_config float s) =
     printed (load_file s)
     @ (case environ s ''PREMIUM_THRESHOLD'' of
          None \<Rightarrow> []
        | Some v \<Rightarrow> if v \<noteq> [] \<and> float v = None then [EnvFormatError ''PREMIUM_THRESHOLD'' v] else [])
     @ (case environ s ''DISCOUNT_THRESHOLD'' of
          None \<Rightarrow> []
        | Some v \<Rightarrow> if v \<noteq> [] \<and> float v = None then [EnvFormatError ''DISCOUNT_THRESHOLD'' v] else [])"
  by (simp add: load_config_def Let_def env_mapping_def env_override_printed env_override_environ
      load_file_environ)

lemma load_config_after_file:
  "config (load_config float s) = overlay (config (load_file s)) (env_layer float (environ s))"
  by (simp add: load_config_def Let_def env_overrides_config load_file_environ)

text \<open>
  C7. When the file exists and reading it fails, \<^verbatim>\<open>load_config\<close> prints the failure
  and takes the defaults alone as the mapping: nothing of the file is merged. The only
  later change of the mapping is by the threshold overrides of the environment. No
  exception leaves \<^verbatim>\<open>load_config\<close>: the handler catches it, and \<open>load_config\<close> has a
  state for every input.
\<close>

theorem unparsable_file_defaults:
  assumes "config_file s = Unreadable"
  shows "config (load_file s) = default_config
         \<and> printed (load_file s) = printed s @ [ReadFailed]
         \<and> ReadFailed \<in> set (printed (load_config float s))
         \<and> config (load_config float s) = overlay default_config (env_layer float (environ s))"
proof -
  have dflt: "config (load_file s) = default_config"
    and out: "printed (load_file s) = printed s @ [ReadFailed]"
    using assms by (simp_all add: load_file_def)
  from out have "ReadFailed \<in> set (printed (load_config float s))"
    by (simp add: load_config_printed)
  moreover from dflt
  have "config (load_config float s) = overlay default_config (env_layer float (environ s))"
    by (simp add: load_config_after_file)
  ultimately show ?thesis using dflt out by simp
qed

text \<open>
  With no variable set, the mapping after the load of \<open>garbled\<close> is the defaults.
\<close>

theorem unparsable_file_defaults_witness:
  "config_file garbled = Unreadable
   \<and> config (load_config float_sample garbled) = default_config
   \<and> printed (load_config float_sample garbled) = [ReadFailed]"
proof -
  have unreadable: "config_file garbled = Unreadable"
    by (simp add: garbled_def first_run_def)
  have "overlay default_config (env_layer float_sample (environ garbled)) = default_config"
    by (rule ext)
      (simp add: overlay_def env_layer_def threshold_override_def garbled_def first_run_def)
  with unparsable_file_defaults [OF unreadable, of float_sample]
  have "config (load_config float_sample garbled) = default_config" by simp
  moreover have "printed (load_config float_sample garbled) = [ReadFailed]"
    using unparsable_file_defaults [OF unreadable, of float_sample]
    by (simp add: load_config_printed garbled_def first_run_def)
  ultimately show ?thesis using unreadable by simp
qed

lemma env_layer_at:
  assumes "(env_key, config_key) \<in> set env_mapping"
  shows "env_layer float env config_key = threshold_override float (env env_key)"
  using assms by (auto simp: env_mapping_def env_layer_def)

lemma format_error_counted:
  "count_list (case v of None \<Rightarrow> []
                | Some x \<Rightarrow> if x \<noteq> [] \<and> float x = None then [EnvFormatError e x] else [])
     (EnvFormatError e' []) = 0"
  by (simp split: option.splits)

text \<open>
  C8, amended. For each threshold variable that is set to a value that is not empty:
  when the value is no number, \<^verbatim>\<open>load_config\<close> prints a format error for it and leaves
  the value of the mapping as the defaults and the file gave it; when the value is a
  number, that number is the value of the mapping. A variable that is set to the empty
  string is passed over like one that is not set: the value of the mapping stays and no
  format error is printed for it. In no case does \<^verbatim>\<open>load_config\<close> raise.
\<close>

theorem threshold_override_outcome:
  assumes "(env_key, config_key) \<in> set env_mapping" and "environ s env_key = Some env_val"
  shows "(env_val \<noteq> [] \<and> float env_val = None \<longrightarrow>
            EnvFormatError env_key env_val \<in> set (printed (load_config float s))
            \<and> config (load_config float s) config_key = config (load_file s) config_key)
         \<and> (\<forall>x. env_val \<noteq> [] \<and> float env_val = Some x \<longrightarrow>
               config (load_config float s) config_key = Some (JNum x))
         \<and> (env_val = [] \<longrightarrow>
               count_list (printed (load_config float s)) (EnvFormatError env_key env_val)
                 = count_list (printed (load_file s)) (EnvFormatError env_key env_val)
               \<and> config (load_config float s) config_key = config (load_file s) config_key)"
proof -
  have layer: "env_layer float (environ s) config_key = threshold_override float (Some env_val)"
    using assms by (simp add: env_layer_at)
  have conf: "config (load_config float s) config_key =
      (case threshold_override float (Some env_val) of
         Some v \<Rightarrow> Some v | None \<Rightarrow> config (load_file s) config_key)"
    by (simp add: load_config_after_file overlay_apply layer)
  have logged: "EnvFormatError env_key env_val \<in> set (printed (load_config float s))"
    if "env_val \<noteq> []" and "float env_val = None"
    using assms that by (auto simp: load_config_printed env_mapping_def)
  have silent: "count_list (printed (load_config float s)) (EnvFormatError env_key [])
                 = count_list (printed (load_file s)) (EnvFormatError env_key [])"
    by (simp add: load_config_printed format_error_counted)
  show ?thesis
    using conf logged silent by (auto simp: threshold_override_def)
qed

text \<open>
  In \<open>mistyped\<close> the premium variable is \<^verbatim>\<open>"abc"\<close> and the discount variable is
  \<^verbatim>\<open>"25.5"\<close>.
\<close>

theorem threshold_override_outcome_witness:
  "(''PREMIUM_THRESHOLD'', ''premium_threshold'') \<in> set env_mapping
   \<and> environ mistyped ''PREMIUM_THRESHOLD'' = Some ''abc''
   \<and> float_sample ''abc'' = None
   \<and> EnvFormatError ''PREMIUM_THRESHOLD'' ''abc'' \<in> set (printed (load_config float_sample mistyped))
   \<and> config (load_config float_sample mistyped) ''premium_threshold'' = Some (JNum 30)
   \<and> (''DISCOUNT_THRESHOLD'', ''discount_threshold'') \<in> set env_mapping
   \<and> environ mistyped ''DISCOUNT_THRESHOLD'' = Some ''25.5''
   \<and> float_sample ''25.5'' = Some (51 / 2)
   \<and> config (load_config float_sample mistyped) ''discount_threshold'' = Some (JNum (51 / 2))"
proof -
  have p: "(''PREMIUM_THRESHOLD'', ''premium_threshold'') \<in> set env_mapping"
    and d: "(''DISCOUNT_THRESHOLD'', ''discount_threshold'') \<in> set env_mapping"
    by (simp_all add: env_mapping_def)
  have pv: "environ mistyped ''PREMIUM_THRESHOLD'' = Some ''abc''"
    and dv: "environ mistyped ''DISCOUNT_THRESHOLD'' = Some ''25.5''"
    by (simp_all add: mistyped_def first_run_def)
  have pf: "float_sample ''abc'' = None" and df: "float_sample ''25.5'' = Some (51 / 2)"
    by (simp_all add: float_sample_def)
  have before: "config (load_file mistyped) ''premium_threshold'' = Some (JNum 30)"
    by (simp add: mistyped_def first_run_def method_defs)
  from threshold_override_outcome [OF p pv, of float_sample] pf before
  have "EnvFormatError ''PREMIUM_THRESHOLD'' ''abc'' \<in> set (printed (load_config float_sample mistyped))
        \<and> config (load_config float_sample mistyped) ''premium_threshold'' = Some (JNum 30)"
    by simp
  moreover
  from threshold_override_outcome [OF d dv, of float_sample] df
  have "config (load_config float_sample mistyped) ''discount_threshold'' = Some (JNum (51 / 2))"
    by simp
  ultimately show ?thesis using p d pv dv pf df by blast
qed

text \<open>
  Without the condition the property fails. The empty string is no number, and a load
  with the premium variable set to it prints nothing.
\<close>

theorem empty_threshold_counterexample:
  "environ empty_threshold ''PREMIUM_THRESHOLD'' = Some []
   \<and> float_sample [] = None
   \<and> printed (load_config float_sample empty_threshold) = []"
  by (simp add: empty_threshold_def first_run_def float_sample_def method_defs)

lemma json_dump_apply: "json_dump d k = map_option through_json (d k)"
  by (simp add: json_dump_def)

lemma through_json_tuple_free: "tuple_free v \<Longrightarrow> through_json v = v"
proof (induction v)
  case (JList xs)
  then show ?case by (simp add: list_all_iff map_idI)
next
  case (JDict kvs)
  then have "map_prod id through_json p = p" if "p \<in> set kvs" for p
    using that by (cases p) (fastforce simp: list_all_iff)
  then show ?case by (simp add: map_idI)
qed simp_all

text \<open>
  C5, amended. Let \<^verbatim>\<open>save_config\<close> write the mapping to a disk that takes the write, and
  let \<^verbatim>\<open>load_config\<close> then read that file, from whatever memory, with neither threshold
  variable set. Then every key other than the two credential keys that the mapping had
  before the save is in the loaded mapping, with the value that JSON gives back for the
  saved one: the saved value with every tuple in it as a list. So a value that holds no
  tuple comes back equal.
\<close>

theorem save_load_roundtrip:
  assumes "disk s = Writable"
    and "config_file s' = config_file (save_config s)"
    and "environ s' ''PREMIUM_THRESHOLD'' = None" and "environ s' ''DISCOUNT_THRESHOLD'' = None"
    and "key \<notin> set sensitive_keys" and "config s key = Some v"
  shows "config (load_config float s') key = Some (through_json v)
         \<and> (tuple_free v \<longrightarrow> config (load_config float s') key = Some v)"
proof -
  have written: "config_file s' = JsonObject (json_dump (del_keys sensitive_keys (config s)))"
    using assms(1,2) by (simp add: save_config_def)
  have "env_layer float (environ s') key = None"
    using assms(3,4) by (simp add: env_layer_def threshold_override_def)
  moreover have "disk_layer (config_file s') key = Some (through_json v)"
    using assms(5,6) by (simp add: written disk_layer_def json_dump_apply del_keys_apply)
  ultimately have "config (load_config float s') key = Some (through_json v)"
    by (simp add: load_precedence overlay_apply)
  then show ?thesis by (simp add: through_json_tuple_free)
qed

text \<open>
  The key \<^verbatim>\<open>"watch"\<close> of \<open>customised\<close>, a list of two codes, is what the later process
  loads.
\<close>

theorem save_load_roundtrip_witness:
  "disk customised = Writable
   \<and> config_file customised_again = config_file (save_config customised)
   \<and> environ customised_again ''PREMIUM_THRESHOLD'' = None
   \<and> environ customised_again ''DISCOUNT_THRESHOLD'' = None
   \<and> ''watch'' \<notin> set sensitive_keys
   \<and> config customised ''watch'' = Some (JList [JStr ''161725'', JStr ''501018''])
   \<and> tuple_free (JList [JStr ''161725'', JStr ''501018''])
   \<and> config (load_config float_sample customised_again) ''watch''
       = Some (JList [JStr ''161725'', JStr ''501018''])"
proof -
  have a: "disk customised = Writable"
    and e: "config customised ''watch'' = Some (JList [JStr ''161725'', JStr ''501018''])"
    by (simp_all add: customised_def first_run_def float_sample_def method_defs)
  have f: "config_file customised_again = config_file (save_config customised)"
    and b: "environ customised_again ''PREMIUM_THRESHOLD'' = None"
    and c: "environ customised_again ''DISCOUNT_THRESHOLD'' = None"
    by (simp_all add: customised_again_def first_run_def)
  have d: "''watch'' \<notin> set sensitive_keys"
    by (simp add: sensitive_keys_def)
  have t: "tuple_free (JList [JStr ''161725'', JStr ''501018''])"
    by simp
  from save_load_roundtrip [OF a f b c d e, THEN conjunct2, of float_sample] t
  have "config (load_config float_sample customised_again) ''watch''
       = Some (JList [JStr ''161725'', JStr ''501018''])"
    by simp
  with a f b c d e t show ?thesis by blast
qed

text \<open>
  Without the condition on the value the property fails. The caller of \<open>tupled\<close> has
  set \<^verbatim>\<open>"watch"\<close> to a tuple; the file is written, and what the later process loads for
  \<^verbatim>\<open>"watch"\<close> is a list, which in Python is equal to no tuple.
\<close>

theorem roundtrip_counterexample:
  "disk tupled = Writable
   \<and> config tupled ''watch'' = Some (JTuple [JStr ''161725'', JStr ''501018''])
   \<and> config (load_config float_sample tupled_again) ''watch''
       = Some (JList [JStr ''161725'', JStr ''501018''])"
  by (simp add: tupled_again_def tupled_def first_run_def float_sample_def method_defs)

section \<open>Setting a credential\<close>

text \<open>
  C9. \<^verbatim>\<open>set\<close> with a credential key changes the field of that key and then saves like
  every other \<^verbatim>\<open>set\<close>: the mapping is as before, and on a disk that takes the write the
  file is rewritten with the mapping without the credential keys, as JSON holds it.
\<close>

theorem credential_set_saves:
  assumes "key \<in> set sensitive_keys"
  shows "set_cfg key v s =
           save_config (if key = ''dingtalk_webhook'' then s\<lparr>dingtalk_webhook := v\<rparr>
                        else s\<lparr>dingtalk_secret := v\<rparr>)
         \<and> config (set_cfg key v s) = config s
         \<and> (disk s = Writable \<longrightarrow>
              config_file (set_cfg key v s)
                = JsonObject (json_dump (del_keys sensitive_keys (config s))))"
proof -
  from assms have key: "key = ''dingtalk_webhook'' \<or> key = ''dingtalk_secret''"
    by (simp add: sensitive_keys_def)
  then have call: "set_cfg key v s =
           save_config (if key = ''dingtalk_webhook'' then s\<lparr>dingtalk_webhook := v\<rparr>
                        else s\<lparr>dingtalk_secret := v\<rparr>)"
    by (auto simp: set_cfg_def)
  then have "config (set_cfg key v s) = config s"
    by (simp add: save_config_config)
  moreover have "config_file (set_cfg key v s)
      = JsonObject (json_dump (del_keys sensitive_keys (config s)))"
    if "disk s = Writable"
    using that by (simp add: call save_config_def)
  ultimately show ?thesis using call by simp
qed

text \<open>
  After the load of \<open>env_loaded\<close> the file holds the defaults, and the mapping the
  premium threshold 25.5 of the environment. Setting the webhook leaves the mapping and
  writes it: the file now holds 25.5.
\<close>

theorem credential_set_saves_witness:
  "''dingtalk_webhook'' \<in> set sensitive_keys
   \<and> disk env_loaded = Writable
   \<and> config_file env_loaded = JsonObject default_config
   \<and> config (set_cfg ''dingtalk_webhook'' (JStr ''https://hook'') env_loaded) = config env_loaded
   \<and> config_file (set_cfg ''dingtalk_webhook'' (JStr ''https://hook'') env_loaded)
       = JsonObject (default_config(''premium_threshold'' \<mapsto> JNum (51 / 2)))"
proof -
  have key: "''dingtalk_webhook'' \<in> set sensitive_keys"
    by (simp add: sensitive_keys_def)
  have writable: "disk env_loaded = Writable"
    by (simp add: env_loaded_def first_run_def float_sample_def method_defs)
  have "config_file env_loaded = JsonObject (json_dump (del_keys sensitive_keys default_config))"
    by (simp add: env_loaded_def first_run_def float_sample_def load_config_def load_file_def
        save_config_def env_override_def env_mapping_def Let_def)
  moreover have "json_dump (del_keys sensitive_keys default_config) = default_config"
    by (rule ext)
      (simp add: json_dump_def del_keys_apply default_config_def sensitive_keys_def)
  ultimately have before: "config_file env_loaded = JsonObject default_config"
    by simp
  have conf: "config env_loaded = default_config(''premium_threshold'' \<mapsto> JNum (51 / 2))"
    by (simp add: env_loaded_def first_run_def float_sample_def method_defs)
  have "json_dump (del_keys sensitive_keys (config env_loaded)) = config env_loaded"
    by (rule ext)
      (simp add: conf json_dump_def del_keys_apply default_config_def sensitive_keys_def)
  with credential_set_saves [OF key, THEN conjunct2, of "JStr ''https://hook''" env_loaded]
    writable before conf
  show ?thesis using key by simp
qed

end
